theory Spec2Isabelle
  imports Complex_Main "HOL-Library.Word" "HOL-Library.Log_Nat"
begin

section \<open>JavaScript numbers\<close>

text \<open>
  A JavaScript Number is an IEEE 754 binary64 value. The finite ones are modelled by the
  rational they denote, so that \<open>/\<close> and \<open>*\<close> can be written as the exact operation followed
  by rounding to the nearest binary64 value (ties to even). The two signed zeros are one
  value here: no operation of \<^verbatim>\<open>App.tsx\<close> tells them apart, its divisors being
  canvas dimensions and positive constants.
\<close>

datatype number = Fin rat | PosInf | NegInf | NaN

definition pow2 :: "int \<Rightarrow> rat" where
  "pow2 k = (if 0 \<le> k then 2 ^ nat k else 1 / 2 ^ nat (- k))"

text \<open>The binary exponent \<open>\<lfloor>log\<^sub>2 x\<rfloor>\<close> of a positive rational, from the bit lengths of its
  numerator and denominator.\<close>

definition ilog2 :: "rat \<Rightarrow> int" where
  "ilog2 x = (let (n, d) = quotient_of x; k = bitlen n - bitlen d
              in if pow2 k \<le> x then k else k - 1)"

definition round_half_even :: "rat \<Rightarrow> int" where
  "round_half_even q =
     (let f = \<lfloor>q\<rfloor>; r = q - of_int f
      in if r < 1 / 2 then f
         else if 1 / 2 < r then f + 1
         else if even f then f else f + 1)"

text \<open>Rounding of a positive rational: a significand of 53 bits, exponents from \<open>-1074\<close>
  (the subnormal range) upwards, overflow to infinity from \<open>2\<^sup>1\<^sup>0\<^sup>2\<^sup>4\<close> on.\<close>

definition binary64_pos :: "rat \<Rightarrow> number" where
  "binary64_pos x =
     (let e = max (ilog2 x - 52) (- 1074);
          y = of_int (round_half_even (x / pow2 e)) * pow2 e
      in if 2 ^ 1024 \<le> y then PosInf else Fin y)"

definition binary64 :: "rat \<Rightarrow> number" where
  "binary64 x =
     (if x = 0 then Fin 0
      else if 0 < x then binary64_pos x
      else (case binary64_pos (- x) of Fin y \<Rightarrow> Fin (- y) | _ \<Rightarrow> NegInf))"

text \<open>The operator \<^verbatim>\<open>/\<close> of the language.\<close>

fun number_div :: "number \<Rightarrow> number \<Rightarrow> number" where
  "number_div NaN _ = NaN"
| "number_div _ NaN = NaN"
| "number_div (Fin a) (Fin b) =
     (if b = 0 then (if a = 0 then NaN else if 0 < a then PosInf else NegInf)
      else binary64 (a / b))"
| "number_div (Fin a) PosInf = Fin 0"
| "number_div (Fin a) NegInf = Fin 0"
| "number_div PosInf (Fin b) = (if b < 0 then NegInf else PosInf)"
| "number_div NegInf (Fin b) = (if b < 0 then PosInf else NegInf)"
| "number_div PosInf PosInf = NaN"
| "number_div PosInf NegInf = NaN"
| "number_div NegInf PosInf = NaN"
| "number_div NegInf NegInf = NaN"

text \<open>The operator \<^verbatim>\<open>*\<close> of the language.\<close>

fun number_times :: "number \<Rightarrow> number \<Rightarrow> number" where
  "number_times NaN _ = NaN"
| "number_times _ NaN = NaN"
| "number_times (Fin a) (Fin b) = binary64 (a * b)"
| "number_times (Fin a) PosInf = (if a = 0 then NaN else if 0 < a then PosInf else NegInf)"
| "number_times (Fin a) NegInf = (if a = 0 then NaN else if 0 < a then NegInf else PosInf)"
| "number_times PosInf (Fin b) = (if b = 0 then NaN else if 0 < b then PosInf else NegInf)"
| "number_times NegInf (Fin b) = (if b = 0 then NaN else if 0 < b then NegInf else PosInf)"
| "number_times PosInf PosInf = PosInf"
| "number_times PosInf NegInf = NegInf"
| "number_times NegInf PosInf = NegInf"
| "number_times NegInf NegInf = PosInf"

text \<open>\<^verbatim>\<open>ToBoolean\<close> on a Number, as the conditional operator applies it: zero and NaN
  are false.\<close>

fun truthy :: "number \<Rightarrow> bool" where
  "truthy (Fin q) = (q \<noteq> 0)"
| "truthy NaN = False"
| "truthy _ = True"

text \<open>\<^verbatim>\<open>Math.round\<close>: the nearest integer, a tie going towards \<open>+\<infinity>\<close>.\<close>

fun Math_round :: "number \<Rightarrow> number" where
  "Math_round (Fin q) = Fin (of_int \<lfloor>q + 1 / 2\<rfloor>)"
| "Math_round x = x"

text \<open>DOM attributes of IDL type \<^verbatim>\<open>long\<close> and \<^verbatim>\<open>unsigned long\<close> read as
  Numbers; every 32-bit integer is a binary64 value, so the conversion is exact.\<close>

definition of_long :: "32 word \<Rightarrow> number" where
  "of_long x = Fin (of_int (sint x))"

definition of_unsigned_long :: "32 word \<Rightarrow> number" where
  "of_unsigned_long x = Fin (of_int (uint x))"

text \<open>Writing a Number to an attribute of IDL type \<^verbatim>\<open>unsigned long\<close>: NaN and the
  infinities become 0, any other value is truncated towards zero and reduced modulo
  \<open>2\<^sup>3\<^sup>2\<close>.\<close>

fun to_unsigned_long :: "number \<Rightarrow> 32 word" where
  "to_unsigned_long (Fin q) = word_of_int (if 0 \<le> q then \<lfloor>q\<rfloor> else \<lceil>q\<rceil>)"
| "to_unsigned_long _ = 0"

text \<open>Decimal digits of a natural number, and \<^verbatim>\<open>Number::toString\<close> as a template
  literal applies it. The finite case prints an integer in decimal, which is what the
  language does for an integral Number below \<open>10\<^sup>2\<^sup>1\<close>; every Number interpolated by
  \<^verbatim>\<open>App.tsx\<close> into a string read below is a small integral constant or a result
  of \<^verbatim>\<open>Math.round\<close>.\<close>

fun decimal :: "nat \<Rightarrow> string" where
  "decimal n =
     (if n < 10 then [''0123456789'' ! n]
      else decimal (n div 10) @ [''0123456789'' ! (n mod 10)])"

fun NumberToString :: "number \<Rightarrow> string" where
  "NumberToString NaN = ''NaN''"
| "NumberToString PosInf = ''Infinity''"
| "NumberToString NegInf = ''-Infinity''"
| "NumberToString (Fin q) =
     (if q < 0 then ''-'' @ decimal (nat \<lfloor>- q\<rfloor>) else decimal (nat \<lfloor>q\<rfloor>))"

section \<open>Layout sizing\<close>

text \<open>The two width constants of \<^verbatim>\<open>App\<close> and their ratio.\<close>

definition PREVIEW_SOURCE_WIDTH :: number where
  "PREVIEW_SOURCE_WIDTH = Fin 600"

definition PREVIEW_DISPLAY_WIDTH :: number where
  "PREVIEW_DISPLAY_WIDTH = Fin 600"

definition scale :: number where
  "scale = number_div PREVIEW_DISPLAY_WIDTH PREVIEW_SOURCE_WIDTH"

text \<open>The \<^verbatim>\<open>height\<close> of the display container's inline style,
  \<^verbatim>\<open>previewHeight ? `${previewHeight * scale}px` : 'auto'\<close>, as the CSS value
  the string denotes.\<close>

datatype css_height = Auto | Px number

definition container_height :: "number \<Rightarrow> css_height" where
  "container_height previewHeight =
     (if truthy previewHeight then Px (number_times previewHeight scale) else Auto)"

text \<open>The \<^verbatim>\<open>transform\<close> of the wrapper around the preview,
  \<^verbatim>\<open>`scale(${scale})`\<close>.\<close>

definition preview_transform :: string where
  "preview_transform = ''scale('' @ NumberToString scale @ '')''"

section \<open>The field store\<close>

text \<open>
  \<^verbatim>\<open>ReceiptData\<close> is an interface of nine string fields. At run time the value is an
  object, a dictionary from property names to strings, and \<^verbatim>\<open>handleDataChange\<close>
  writes it under a computed key taken from the input element, so the model is the
  dictionary.
\<close>

type_synonym ReceiptData = "string \<rightharpoonup> string"

definition ReceiptField :: "string list" where
  "ReceiptField = [''transactionId'', ''dateTime'', ''amount'', ''fromAccount'',
     ''beneficiaryName'', ''beneficiaryAccount'', ''purpose'', ''comments'', ''channel'']"

definition initial_receiptData :: ReceiptData where
  "initial_receiptData = map_of
     [(''transactionId'', ''16325459761''),
      (''dateTime'', ''10/25/2025 9:09:24 PM''),
      (''amount'', ''9,000''),
      (''fromAccount'', ''ST MEDIA (PRIV''),
      (''beneficiaryName'', ''ST MEDIA (PRIV''),
      (''beneficiaryAccount'', ''*4003''),
      (''purpose'', ''Others''),
      (''comments'', ''Miscellaneous''),
      (''channel'', ''via HBL PAY'')]"

text \<open>The updater \<^verbatim>\<open>prevData => ({...prevData, [name]: value})\<close> for the
  \<^verbatim>\<open>name\<close> and \<^verbatim>\<open>value\<close> of the event's target.\<close>

definition handleDataChange :: "string \<Rightarrow> string \<Rightarrow> ReceiptData \<Rightarrow> ReceiptData" where
  "handleDataChange name val prevData = prevData(name \<mapsto> val)"

section \<open>The document\<close>

text \<open>A DOM subtree as a value: an element with its tag, its attributes, the properties
  of its inline style and its children, or a text node.\<close>

datatype node =
    Element (tagName: string) (attributes: "(string \<times> string) list")
      (style: "string \<rightharpoonup> string") (childNodes: "node list")
  | Text string

text \<open>\<^verbatim>\<open>cloneNode(deep)\<close>: a copy of the node with its attributes and inline style,
  and of its descendants when \<open>deep\<close> is set.\<close>

fun cloneNode :: "bool \<Rightarrow> node \<Rightarrow> node" where
  "cloneNode deep (Element t a st cs) =
     Element t a st (if deep then map (cloneNode deep) cs else [])"
| "cloneNode deep (Text d) = Text d"

text \<open>An assignment \<^verbatim>\<open>n.style.p = v\<close>. The node assigned to in \<^verbatim>\<open>App.tsx\<close> is
  the clone of an \<^verbatim>\<open>HTMLDivElement\<close>, an element.\<close>

fun set_style_property :: "string \<Rightarrow> string \<Rightarrow> node \<Rightarrow> node" where
  "set_style_property p v (Element t a st cs) = Element t a (st(p \<mapsto> v)) cs"
| "set_style_property p v (Text d) = Text d"

text \<open>Node objects have an identity: the children of \<^verbatim>\<open>document.body\<close> are a list
  of references, and the nodes referred to live in a heap with an allocation counter.\<close>

type_synonym node_id = nat

text \<open>\<^verbatim>\<open>appendChild\<close> moves a node that is already a child to the end;
  \<^verbatim>\<open>removeChild\<close> throws when the node is not a child.\<close>

datatype error =
    Rejected string
  | NoContext
  | InvalidStateError
  | SecurityError
  | NotFoundError

definition appendChild :: "node_id \<Rightarrow> node_id list \<Rightarrow> node_id list" where
  "appendChild c children = removeAll c children @ [c]"

definition removeChild :: "node_id \<Rightarrow> node_id list \<Rightarrow> error + node_id list" where
  "removeChild c children =
     (if c \<in> set children then Inr (removeAll c children) else Inl NotFoundError)"

text \<open>A canvas is known by its two dimensions, attributes of IDL type
  \<^verbatim>\<open>unsigned long\<close>. Assigning a Number to one of them converts it as
  \<open>to_unsigned_long\<close> does, and a result above \<open>2\<^sup>3\<^sup>1 - 1\<close> is replaced by the
  attribute's default (300 for the width, 150 for the height).\<close>

record canvas =
  width :: "32 word"
  height :: "32 word"

definition canvas_dimension :: "32 word \<Rightarrow> number \<Rightarrow> 32 word" where
  "canvas_dimension dflt v =
     (let u = to_unsigned_long v in if u \<le> 2147483647 then u else dflt)"

section \<open>The application state\<close>

text \<open>What a click on the synthetic link hands to the browser: the file name in
  \<^verbatim>\<open>link.download\<close>, the data URL in \<^verbatim>\<open>link.href\<close>, and the canvas the URL
  encodes, whose dimensions are those of the PNG.\<close>

record download =
  filename :: string
  href :: string
  image :: canvas

text \<open>The three pieces of component state, the \<^verbatim>\<open>disabled\<close> attribute the last
  render gave the download button, the ref to the preview, the document, and the traces
  of what the user and the browser are given: the console, the alerts and the
  downloads.\<close>

record app =
  receiptData :: ReceiptData
  isDownloading :: bool
  previewHeight :: number
  disabled :: bool
  previewRef :: "node_id option"
  heap :: "node_id \<Rightarrow> node"
  next_id :: node_id
  body :: "node_id list"
  console :: "error list"
  alerts :: "string list"
  downloads :: "download list"

text \<open>\<^verbatim>\<open>calculateHeight\<close>, for the \<^verbatim>\<open>offsetHeight\<close> the layout reports (an
  attribute of IDL type \<^verbatim>\<open>long\<close>).\<close>

definition calculateHeight :: "32 word \<Rightarrow> app \<Rightarrow> app" where
  "calculateHeight offsetHeight s =
     (case previewRef s of
        None \<Rightarrow> s
      | Some _ \<Rightarrow> s\<lparr>previewHeight := of_long offsetHeight\<rparr>)"

section \<open>The export\<close>

text \<open>
  What the collaborators of one export answer: the value the promise of
  \<^verbatim>\<open>html2canvas\<close> settles with for the node it is given (a canvas, or a
  rejection; the options of the call are the same three constants every time), whether
  \<^verbatim>\<open>getContext('2d')\<close> returns a context rather than \<^verbatim>\<open>null\<close>, and the data
  URL returned by \<^verbatim>\<open>toDataURL\<close> (or the exception it throws).
\<close>

record export_env =
  html2canvas :: "node \<Rightarrow> error + canvas"
  getContext :: bool
  toDataURL :: "error + string"

definition set_style :: "node_id \<Rightarrow> string \<Rightarrow> string \<Rightarrow> app \<Rightarrow> app" where
  "set_style n p v s = s\<lparr>heap := (heap s)(n := set_style_property p v (heap s n))\<rparr>"

text \<open>\<^verbatim>\<open>handleDownload\<close> up to its first \<^verbatim>\<open>await\<close>: the guard on the ref, the busy
  flag, the clone with its five style overrides, and its attachment to the body. The
  result carries the clone when the export has started.\<close>

definition handleDownload_start :: "app \<Rightarrow> app \<times> node_id option" where
  "handleDownload_start s =
     (case previewRef s of
        None \<Rightarrow> (s, None)
      | Some sourceNode \<Rightarrow>
          (let s1 = s\<lparr>isDownloading := True\<rparr>;
               clone = next_id s1;
               s2 = s1\<lparr>heap := (heap s1)(clone := cloneNode True (heap s1 sourceNode)),
                       next_id := Suc clone\<rparr>;
               s3 = set_style clone ''position'' ''absolute'' s2;
               s4 = set_style clone ''top'' ''0'' s3;
               s5 = set_style clone ''left'' ''-9999px'' s4;
               s6 = set_style clone ''transform'' ''none'' s5;
               s7 = set_style clone ''width'' (NumberToString PREVIEW_SOURCE_WIDTH @ ''px'') s6;
               s8 = s7\<lparr>body := appendChild clone (body s7)\<rparr>
           in (s8, Some clone)))"

text \<open>The body of the \<^verbatim>\<open>try\<close> block from the settling of \<^verbatim>\<open>html2canvas\<close> on.
  \<^verbatim>\<open>drawImage\<close> throws when the source canvas has a zero dimension. \<open>Inl\<close> is the
  exception that reaches the \<^verbatim>\<open>catch\<close>, \<open>Inr\<close> the download that
  \<^verbatim>\<open>link.click()\<close> triggers.\<close>

definition export_image :: "export_env \<Rightarrow> node \<Rightarrow> error + download" where
  "export_image env clone =
     (case html2canvas env clone of
        Inl e \<Rightarrow> Inl e
      | Inr sourceCanvas \<Rightarrow>
          (let targetWidth = Fin 840;
               sourceAspectRatio =
                 number_div (of_unsigned_long (width sourceCanvas))
                   (of_unsigned_long (height sourceCanvas));
               targetHeight = number_div targetWidth sourceAspectRatio;
               targetCanvas = \<lparr>width = canvas_dimension 300 targetWidth,
                               height = canvas_dimension 150 targetHeight\<rparr>
           in if \<not> getContext env then Inl NoContext
              else if width sourceCanvas = 0 \<or> height sourceCanvas = 0
              then Inl InvalidStateError
              else (case toDataURL env of
                      Inl e \<Rightarrow> Inl e
                    | Inr url \<Rightarrow>
                        Inr \<lparr>filename = ''hbl-confirmation-'' @ NumberToString targetWidth
                                 @ ''x'' @ NumberToString (Math_round targetHeight) @ ''.png'',
                             href = url,
                             image = targetCanvas\<rparr>)))"

text \<open>The rest of \<^verbatim>\<open>handleDownload\<close>: the \<^verbatim>\<open>try\<close> block, its \<^verbatim>\<open>catch\<close> and
  its \<^verbatim>\<open>finally\<close>. The first component is how the promise of \<^verbatim>\<open>handleDownload\<close>
  settles: \<open>Inl\<close> when \<^verbatim>\<open>removeChild\<close> throws out of the \<^verbatim>\<open>finally\<close>.\<close>

definition handleDownload_finish ::
    "export_env \<Rightarrow> node_id \<Rightarrow> app \<Rightarrow> (error + unit) \<times> app" where
  "handleDownload_finish env clone s =
     (let s1 = (case export_image env (heap s clone) of
                  Inl err \<Rightarrow>
                    s\<lparr>console := console s @ [err],
                      alerts := alerts s @
                        [''An error occurred while generating the image. Please check the console.'']\<rparr>
                | Inr d \<Rightarrow> s\<lparr>downloads := downloads s @ [d]\<rparr>)
      in case removeChild clone (body s1) of
           Inl e \<Rightarrow> (Inl e, s1)
         | Inr children \<Rightarrow> (Inr (), s1\<lparr>body := children, isDownloading := False\<rparr>))"

text \<open>One whole run of \<^verbatim>\<open>handleDownload\<close>, nothing else happening while it is
  suspended.\<close>

definition handleDownload :: "export_env \<Rightarrow> app \<Rightarrow> (error + unit) \<times> app" where
  "handleDownload env s =
     (case handleDownload_start s of
        (s', None) \<Rightarrow> (Inr (), s')
      | (s', Some clone) \<Rightarrow> handleDownload_finish env clone s')"

section \<open>The event loop\<close>

text \<open>
  \<^verbatim>\<open>handleDownload\<close> is asynchronous: it is suspended at the 300 ms timer and at the
  promise of \<^verbatim>\<open>html2canvas\<close>, and other events are handled meanwhile. A suspended
  export is a task holding its clone. The events are a click on the download button, a
  change of an input, a measurement of the preview, the timer of a task, the settling of
  a task's rasterization, and a render. A state setter changes the state at once; what
  the button shows follows only at the next render.
\<close>

datatype task = Settling node_id | Rasterizing node_id


datatype event =
    Click
  | Change string string
  | Measure "32 word"
  | Timeout node_id
  | Settled node_id export_env
  | Render

text \<open>The button carries \<^verbatim>\<open>disabled={isDownloading}\<close> and is the only caller of
  \<^verbatim>\<open>handleDownload\<close>. A render writes the flag to the attribute, and a click on
  the button runs no handler while the attribute is set; \<^verbatim>\<open>handleDownload\<close> itself
  has no guard but the one on the ref.\<close>

fun dispatch :: "event \<Rightarrow> app \<times> task list \<Rightarrow> app \<times> task list" where
  "dispatch Click (s, ts) =
     (if disabled s then (s, ts)
      else (case handleDownload_start s of
              (s', None) \<Rightarrow> (s', ts)
            | (s', Some clone) \<Rightarrow> (s', ts @ [Settling clone])))"
| "dispatch (Change name val) (s, ts) =
     (s\<lparr>receiptData := handleDataChange name val (receiptData s)\<rparr>, ts)"
| "dispatch (Measure offsetHeight) (s, ts) = (calculateHeight offsetHeight s, ts)"
| "dispatch (Timeout c) (s, ts) =
     (s, map (\<lambda>t. if t = Settling c then Rasterizing c else t) ts)"
| "dispatch (Settled c env) (s, ts) =
     (if Rasterizing c \<in> set ts
      then (snd (handleDownload_finish env c s), removeAll (Rasterizing c) ts)
      else (s, ts))"
| "dispatch Render (s, ts) = (s\<lparr>disabled := isDownloading s\<rparr>, ts)"

fun run :: "event list \<Rightarrow> app \<times> task list \<Rightarrow> app \<times> task list" where
  "run [] st = st"
| "run (e # es) st = run es (dispatch e st)"


text \<open>The state after mounting: the initial values of the three \<^verbatim>\<open>useState\<close>
  calls, the button as the first render leaves it, and the given ref, heap, allocation
  counter and children of the body.\<close>

definition mounted :: "(node_id \<Rightarrow> node) \<Rightarrow> node_id \<Rightarrow> node_id option \<Rightarrow> node_id list \<Rightarrow> app" where
  "mounted h n r children =
     \<lparr>receiptData = initial_receiptData, isDownloading = False, previewHeight = Fin 0,
      disabled = False, previewRef = r, heap = h, next_id = n, body = children,
      console = [], alerts = [], downloads = []\<rparr>"

text \<open>Allocation is sound when every node in use lies below the counter.\<close>

definition allocated :: "app \<Rightarrow> bool" where
  "allocated s \<longleftrightarrow>
     list_all (\<lambda>i. i < next_id s) (body s) \<and>
     pred_option (\<lambda>r. r < next_id s) (previewRef s)"



section \<open>Properties of the number model\<close>

text \<open>Every integer below \<open>2\<^sup>5\<^sup>3\<close> in magnitude is a binary64 value: rounding leaves it
  as it is.\<close>

lemma round_half_even_of_int: "round_half_even (of_int m) = m"
  by (simp add: round_half_even_def)

lemma quotient_of_of_int: "quotient_of (of_int n) = (n, 1)"
  using quotient_of_int[of n] by (simp add: Rat.of_int_def)

lemma bitlen_le_53: "0 < n \<Longrightarrow> n < 2 ^ 53 \<Longrightarrow> bitlen n \<le> 53"
  unfolding bitlen_def using floorlog_leI[of "nat n" 2 53] by (simp add: nat_less_iff)

lemma ilog2_of_int_le: "0 < n \<Longrightarrow> n < 2 ^ 53 \<Longrightarrow> ilog2 (of_int n) \<le> 52"
  using bitlen_le_53[of n] by (simp add: ilog2_def quotient_of_of_int Let_def compute_bitlen[of 1])

lemma binary64_pos_of_int:
  assumes "0 < n" "n < 2 ^ 53"
  shows "binary64_pos (of_int n) = Fin (of_int n)"
proof -
  define e where "e = max (ilog2 (of_int n) - 52) (- 1074)"
  have e: "e \<le> 0" using ilog2_of_int_le[OF assms] by (simp add: e_def)
  define k where "k = nat (- e)"
  have p: "pow2 e = 1 / 2 ^ k"
    using e by (cases "e = 0") (simp_all add: pow2_def k_def)
  have q: "of_int n / pow2 e = of_int (n * 2 ^ k)"
    by (simp add: p)
  have y: "of_int (round_half_even (of_int n / pow2 e)) * pow2 e = of_int n"
    unfolding q round_half_even_of_int by (simp add: p)
  have "(of_int n :: rat) < 2 ^ 53"
    using assms(2) by (metis of_int_less_iff of_int_numeral of_int_power)
  also have "\<dots> < 2 ^ 1024" by simp
  finally have "\<not> (2 ^ 1024 \<le> (of_int n :: rat))" by simp
  then show ?thesis
    unfolding binary64_pos_def Let_def e_def[symmetric] y by simp
qed

lemma binary64_of_int:
  assumes "\<bar>n\<bar> < 2 ^ 53"
  shows "binary64 (of_int n) = Fin (of_int n)"
proof -
  consider "n = 0" | "0 < n" | "n < 0" by linarith
  then show ?thesis
  proof cases
    case 1 then show ?thesis by (simp add: binary64_def)
  next
    case 2 then show ?thesis using assms binary64_pos_of_int[of n] by (simp add: binary64_def)
  next
    case 3
    then have "binary64_pos (of_int (- n)) = Fin (of_int (- n))"
      using assms by (intro binary64_pos_of_int) simp_all
    with 3 show ?thesis by (simp add: binary64_def)
  qed
qed

text \<open>\<open>ilog2\<close> is the binary exponent, and a rational in the normal range that is not
  half-way between two neighbours rounds to the nearer one.\<close>

lemma pow2_powi: "pow2 k = 2 powi k"
  unfolding pow2_def power_int_def by (simp add: field_simps)

lemma ilog2_bounds:
  assumes "0 < x"
  shows "pow2 (ilog2 x) \<le> x \<and> x < pow2 (ilog2 x + 1)"
proof -
  obtain n d where q: "quotient_of x = (n, d)" by (cases "quotient_of x")
  have d: "0 < d" by (rule quotient_of_denom_pos[OF q])
  have x: "x = of_int n / of_int d" by (rule quotient_of_div[OF q])
  from assms x d have n: "0 < n" by (simp add: zero_less_divide_iff)
  define bn where "bn = bitlen n"
  define bd where "bd = bitlen d"
  have bn: "2 powi (bn - 1) \<le> (of_int n :: rat)" "(of_int n :: rat) < 2 powi bn"
  proof -
    from bitlen_bounds[OF n] have "2 ^ nat (bn - 1) \<le> n" "n < 2 ^ nat bn"
      by (simp_all add: bn_def)
    then have "(of_int (2 ^ nat (bn - 1)) :: rat) \<le> of_int n" "(of_int n :: rat) < of_int (2 ^ nat bn)"
      by (simp_all only: of_int_le_iff of_int_less_iff)
    moreover have "1 \<le> bn" using n by (simp add: bn_def bitlen_alt_def)
    ultimately show "2 powi (bn - 1) \<le> (of_int n :: rat)" "(of_int n :: rat) < 2 powi bn"
      unfolding power_int_def by simp_all
  qed
  have bd: "2 powi (bd - 1) \<le> (of_int d :: rat)" "(of_int d :: rat) < 2 powi bd"
  proof -
    from bitlen_bounds[OF d] have "2 ^ nat (bd - 1) \<le> d" "d < 2 ^ nat bd"
      by (simp_all add: bd_def)
    then have "(of_int (2 ^ nat (bd - 1)) :: rat) \<le> of_int d" "(of_int d :: rat) < of_int (2 ^ nat bd)"
      by (simp_all only: of_int_le_iff of_int_less_iff)
    moreover have "1 \<le> bd" using d by (simp add: bd_def bitlen_alt_def)
    ultimately show "2 powi (bd - 1) \<le> (of_int d :: rat)" "(of_int d :: rat) < 2 powi bd"
      unfolding power_int_def by simp_all
  qed
  define k where "k = bn - bd"
  have dpos: "(0 :: rat) < of_int d" using d by simp
  have npos: "(0 :: rat) < of_int n" using n by simp
  have p: "(0 :: rat) < 2 powi j" for j by simp
  have up: "x < 2 powi (k + 1)"
  proof -
    have "x < 2 powi bn / of_int d"
      unfolding x using bn(2) dpos by (simp add: divide_strict_right_mono)
    also have "\<dots> \<le> 2 powi bn / 2 powi (bd - 1)"
      using bd(1) p[of "bd - 1"] p[of bn] by (simp add: frac_le)
    also have "\<dots> = 2 powi (k + 1)"
      by (simp add: k_def power_int_diff[symmetric] algebra_simps)
    finally show ?thesis .
  qed
  have lo: "2 powi (k - 1) < x"
  proof -
    have "2 powi (k - 1) = 2 powi (bn - 1) / (2 powi bd :: rat)"
      by (simp add: k_def power_int_diff[symmetric] algebra_simps)
    also have "\<dots> < 2 powi (bn - 1) / of_int d"
      using bd(2) dpos p[of "bn - 1"] by (simp add: divide_strict_left_mono)
    also have "\<dots> \<le> x"
      unfolding x using bn(1) dpos by (simp add: divide_right_mono)
    finally show ?thesis .
  qed
  have i: "ilog2 x = (if 2 powi k \<le> x then k else k - 1)"
    by (simp add: ilog2_def q Let_def pow2_powi k_def bn_def bd_def)
  show ?thesis
    using up lo by (simp add: i pow2_powi)
qed

lemma ilog2_eqI:
  assumes "pow2 k \<le> x" "x < pow2 (k + 1)"
  shows "ilog2 x = k"
proof -
  have "0 < pow2 k" by (simp add: pow2_powi)
  with assms(1) have x: "0 < x" by simp
  note b = ilog2_bounds[OF x]
  have "\<not> ilog2 x < k"
  proof
    assume "ilog2 x < k"
    then have "ilog2 x + 1 \<le> k" by simp
    then have "(2::rat) powi (ilog2 x + 1) \<le> 2 powi k"
      by (intro power_int_increasing) simp_all
    with b assms(1) show False by (simp add: pow2_powi)
  qed
  moreover have "\<not> k < ilog2 x"
  proof
    assume "k < ilog2 x"
    then have "k + 1 \<le> ilog2 x" by simp
    then have "(2::rat) powi (k + 1) \<le> 2 powi ilog2 x"
      by (intro power_int_increasing) simp_all
    with b assms(2) show False by (simp add: pow2_powi)
  qed
  ultimately show ?thesis by simp
qed

lemma round_half_even_nearest:
  assumes "of_int m - 1 / 2 < q" "q < of_int m + 1 / 2"
  shows "round_half_even q = m"
proof (cases "of_int m \<le> q")
  case True
  with assms have "\<lfloor>q\<rfloor> = m" by (intro floor_unique) simp_all
  with assms show ?thesis by (simp add: round_half_even_def Let_def)
next
  case False
  with assms have "\<lfloor>q\<rfloor> = m - 1" by (intro floor_unique) simp_all
  with assms False show ?thesis by (simp add: round_half_even_def Let_def)
qed

lemma binary64_normal:
  assumes "pow2 k \<le> x" "x < pow2 (k + 1)" "- 1022 \<le> k" "k < 1023"
    and "of_int m - 1 / 2 < x / pow2 (k - 52)" "x / pow2 (k - 52) < of_int m + 1 / 2"
  shows "binary64 x = Fin (of_int m * pow2 (k - 52))"
proof -
  have "0 < pow2 k" by (simp add: pow2_powi)
  with assms(1) have x: "0 < x" by simp
  have i: "ilog2 x = k" by (rule ilog2_eqI[OF assms(1,2)])
  have e: "max (ilog2 x - 52) (- 1074) = k - 52" using assms(3) by (simp add: i)
  have r: "round_half_even (x / pow2 (k - 52)) = m"
    by (rule round_half_even_nearest[OF assms(5,6)])
  have p: "0 < pow2 (k - 52)" by (simp add: pow2_powi)
  from assms(5) p have "of_int m * pow2 (k - 52) < x + pow2 (k - 52) / 2"
    by (simp add: field_simps)
  also have "\<dots> < pow2 (k + 1) + pow2 (k - 52) / 2"
    using assms(2) by simp
  also have "\<dots> \<le> 2 powi 1023 + 2 powi 970 / 2"
    unfolding pow2_powi using assms(4)
    by (intro add_mono divide_right_mono power_int_increasing) simp_all
  also have "\<dots> < 2 ^ 1024" by simp
  finally have "\<not> 2 ^ 1024 \<le> of_int m * pow2 (k - 52)" by simp
  then show ?thesis
    using x by (simp add: binary64_def binary64_pos_def Let_def e r)
qed

text \<open>The result of \<^verbatim>\<open>Math.round\<close> is integral, so that \<open>NumberToString\<close> prints it
  digit for digit.\<close>

lemma Math_round_integral: "Math_round x = Fin q \<Longrightarrow> of_int \<lfloor>q\<rfloor> = q"
  by (cases x) auto

lemma scale_eq: "scale = Fin 1"
  by (simp add: scale_def PREVIEW_DISPLAY_WIDTH_def PREVIEW_SOURCE_WIDTH_def
      binary64_of_int[of 1, simplified])

lemma sint_32_bound: "\<bar>sint (x :: 32 word)\<bar> < 2 ^ 53"
proof -
  have "- (2 ^ 31) \<le> sint x" "sint x < 2 ^ 31"
    using sint_ge[of x] sint_lt[of x] by simp_all
  then show ?thesis by simp
qed

lemma times_scale: "number_times (of_long H) scale = of_long H"
  using binary64_of_int[OF sint_32_bound[of H]] by (simp add: scale_eq of_long_def)

lemma truthy_of_long: "truthy (of_long H) \<longleftrightarrow> sint H \<noteq> 0"
  by (simp add: of_long_def del: of_int_sint)

section \<open>Layout sizing: the container height\<close>

text \<open>
  Claim C8. For every measured preview height \<open>H > 0\<close> the height of the display
  container is \<open>H * (displayWidth / sourceWidth)\<close> pixels exactly, the product and the
  quotient being those of exact arithmetic and the two widths the constants 600 and 600;
  for the height 0, the initial value of a preview not measured yet or a measurement of
  0, the container height is \<open>auto\<close>.
\<close>

theorem container_height_exact:
  "PREVIEW_DISPLAY_WIDTH = Fin 600 \<and> PREVIEW_SOURCE_WIDTH = Fin 600 \<and>
   (0 < sint H \<longrightarrow>
      container_height (of_long H) = Px (Fin (of_int (sint H) * (600 / 600)))) \<and>
   container_height (Fin 0) = Auto \<and> container_height (of_long 0) = Auto"
proof -
  have "0 < sint H \<longrightarrow> container_height (of_long H) = Px (of_long H)"
    by (simp add: container_height_def truthy_of_long times_scale)
  moreover have "container_height (Fin 0) = Auto" "container_height (of_long 0) = Auto"
    by (simp_all add: container_height_def of_long_def)
  moreover have "of_long H = Fin (of_int (sint H) * (600 / 600))"
    by (simp add: of_long_def)
  ultimately show ?thesis
    by (simp add: PREVIEW_DISPLAY_WIDTH_def PREVIEW_SOURCE_WIDTH_def)
qed

theorem container_height_exact_witness:
  "0 < sint (400 :: 32 word) \<and> container_height (of_long 400) = Px (Fin (400 * (600 / 600)))"
  using container_height_exact[of 400] by simp

text \<open>
  Claim C10. The display width and the source width are the same constant 600, so the
  display scale is the constant 1: the transform of the preview is \<open>scale(1)\<close>, the
  product \<open>previewHeight * scale\<close> is the measured height itself, and the container of a
  measured preview is that many pixels high.
\<close>

theorem display_scale_is_one:
  "PREVIEW_DISPLAY_WIDTH = PREVIEW_SOURCE_WIDTH \<and> PREVIEW_SOURCE_WIDTH = Fin 600 \<and>
   scale = Fin 1 \<and> preview_transform = ''scale(1)'' \<and>
   number_times (of_long H) scale = of_long H \<and>
   (0 < sint H \<longrightarrow> container_height (of_long H) = Px (of_long H))"
proof -
  have "PREVIEW_DISPLAY_WIDTH = PREVIEW_SOURCE_WIDTH" "PREVIEW_SOURCE_WIDTH = Fin 600"
    by (simp_all add: PREVIEW_DISPLAY_WIDTH_def PREVIEW_SOURCE_WIDTH_def)
  moreover have "preview_transform = ''scale(1)''"
    by (simp add: preview_transform_def scale_eq)
  moreover have "0 < sint H \<longrightarrow> container_height (of_long H) = Px (of_long H)"
    by (simp add: container_height_def truthy_of_long times_scale)
  ultimately show ?thesis
    using scale_eq times_scale[of H] by blast
qed

theorem display_scale_is_one_witness:
  "0 < sint (642 :: 32 word) \<and> container_height (of_long 642) = Px (Fin 642)"
  using display_scale_is_one[of 642] by (simp add: of_long_def)

section \<open>The field store: an unrecognized name\<close>

text \<open>
  Claim C2, as the specification has it: an update under a name that is not one of the
  nine recognized keys leaves the stored object exactly as it was. It does not: the
  update under \<open>nickname\<close> changes the initial object.
\<close>

theorem handleDataChange_unrecognized_counterexample:
  "handleDataChange ''nickname'' ''x'' initial_receiptData \<noteq> initial_receiptData"
proof
  assume "handleDataChange ''nickname'' ''x'' initial_receiptData = initial_receiptData"
  then have "handleDataChange ''nickname'' ''x'' initial_receiptData ''nickname''
      = initial_receiptData ''nickname''"
    by simp
  then show False
    by (simp add: handleDataChange_def initial_receiptData_def)
qed

text \<open>
  Claim C2, amended. An update under a name that is not one of the nine recognized keys
  leaves the value of each of the nine recognized fields as it was; the name itself
  becomes one more key of the stored object, holding the given value.
\<close>

theorem handleDataChange_unrecognized:
  "name \<notin> set ReceiptField \<Longrightarrow>
     (\<forall>k \<in> set ReceiptField. handleDataChange name val prevData k = prevData k) \<and>
     handleDataChange name val prevData name = Some val \<and>
     dom (handleDataChange name val prevData) = insert name (dom prevData)"
  unfolding handleDataChange_def by auto

theorem handleDataChange_unrecognized_witness:
  "''nickname'' \<notin> set ReceiptField \<and>
   list_all (\<lambda>k. handleDataChange ''nickname'' ''x'' initial_receiptData k
                    = initial_receiptData k) ReceiptField \<and>
   handleDataChange ''nickname'' ''x'' initial_receiptData ''nickname'' = Some ''x'' \<and>
   dom (handleDataChange ''nickname'' ''x'' initial_receiptData)
     = insert ''nickname'' (dom initial_receiptData)"
proof -
  have h: "''nickname'' \<notin> set ReceiptField" by (simp add: ReceiptField_def)
  from h handleDataChange_unrecognized[OF h, of "''x''" initial_receiptData]
  show ?thesis unfolding list_all_iff by (rule conjI)
qed

section \<open>Properties of the export\<close>

lemma cloneNode_deep: "cloneNode True n = n"
  by (induction n) (simp_all add: map_idI)

lemma source_width_px: "NumberToString PREVIEW_SOURCE_WIDTH @ ''px'' = ''600px''"
  by (simp add: PREVIEW_SOURCE_WIDTH_def)

lemma handleDownload_start_None:
  "previewRef s = None \<Longrightarrow> handleDownload_start s = (s, None)"
  by (simp add: handleDownload_start_def)

lemma handleDownload_start_Some:
  "previewRef s = Some r \<Longrightarrow>
   handleDownload_start s =
     (s\<lparr>isDownloading := True,
        heap := (heap s)(next_id s :=
          set_style_property ''width'' ''600px''
            (set_style_property ''transform'' ''none''
              (set_style_property ''left'' ''-9999px''
                (set_style_property ''top'' ''0''
                  (set_style_property ''position'' ''absolute'' (heap s r)))))),
        next_id := Suc (next_id s),
        body := appendChild (next_id s) (body s)\<rparr>,
      Some (next_id s))"
  by (simp add: handleDownload_start_def set_style_def Let_def cloneNode_deep source_width_px)

lemma appendChild_fresh: "c \<notin> set children \<Longrightarrow> appendChild c children = children @ [c]"
  by (simp add: appendChild_def)

lemma removeChild_appended:
  "c \<notin> set children \<Longrightarrow> removeChild c (children @ [c]) = Inr children"
  by (simp add: removeChild_def)

lemma allocated_fresh: "allocated s \<Longrightarrow> next_id s \<notin> set (body s)"
  by (auto simp: allocated_def list_all_iff)

lemma handleDownload_start_attached:
  assumes "allocated s" "previewRef s = Some r" "handleDownload_start s = (s1, Some c)"
  shows "c = next_id s" "c \<notin> set (body s)" "body s1 = body s @ [c]" "isDownloading s1"
    "alerts s1 = alerts s" "downloads s1 = downloads s" "console s1 = console s"
    "allocated s1"
proof -
  from assms(3) show c: "c = next_id s"
    by (simp add: handleDownload_start_Some[OF assms(2)])
  from allocated_fresh[OF assms(1)] c show f: "c \<notin> set (body s)" by simp
  from assms(3) show b: "body s1 = body s @ [c]"
    using appendChild_fresh[OF f] c by (auto simp: handleDownload_start_Some[OF assms(2)])
  from assms(3) show "isDownloading s1" "alerts s1 = alerts s" "downloads s1 = downloads s"
    "console s1 = console s"
    by (auto simp: handleDownload_start_Some[OF assms(2)])
  from assms(3) have n: "next_id s1 = Suc (next_id s)" "previewRef s1 = Some r"
    by (auto simp: handleDownload_start_Some[OF assms(2)] assms(2))
  from assms(1) have "list_all (\<lambda>i. i < next_id s) (body s)" "r < next_id s"
    by (simp_all add: allocated_def assms(2))
  then show "allocated s1"
    unfolding allocated_def n b by (simp add: c list_all_iff less_Suc_eq)
qed

lemma handleDownload_finish_attached:
  assumes "body s = children @ [c]" "c \<notin> set children"
  shows "handleDownload_finish env c s =
     (Inr (),
      (case export_image env (heap s c) of
         Inl err \<Rightarrow>
           s\<lparr>console := console s @ [err],
             alerts := alerts s @
               [''An error occurred while generating the image. Please check the console.'']\<rparr>
       | Inr d \<Rightarrow> s\<lparr>downloads := downloads s @ [d]\<rparr>)
      \<lparr>body := children, isDownloading := False\<rparr>)"
  using assms
  by (cases "export_image env (heap s c)")
     (simp_all add: handleDownload_finish_def Let_def removeChild_appended)

lemma export_image_fails:
  "isl (html2canvas env n) \<or> \<not> getContext env \<Longrightarrow> isl (export_image env n)"
  by (cases "html2canvas env n") (auto simp: export_image_def Let_def)

text \<open>
  Claim C5. An export that starts attaches its clone as the last child of the body, a
  node that was not a child before; whatever the collaborators answer, rasterization
  rejected, no 2D context, an exception of \<open>drawImage\<close> or of \<open>toDataURL\<close>, or success,
  the promise of \<open>handleDownload\<close> resolves and the children of the body are again
  exactly those of before the export: no clone stays attached.
\<close>

theorem clone_removed_on_every_exit:
  "allocated s \<Longrightarrow> previewRef s = Some r \<Longrightarrow> handleDownload_start s = (s1, c) \<Longrightarrow>
     c = Some (next_id s) \<and> next_id s \<notin> set (body s) \<and>
     body s1 = body s @ [next_id s] \<and>
     handleDownload env s = handleDownload_finish env (next_id s) s1 \<and>
     fst (handleDownload env s) = Inr () \<and>
     body (snd (handleDownload env s)) = body s"
proof -
  assume a: "allocated s" and r: "previewRef s = Some r"
    and st0: "handleDownload_start s = (s1, c)"
  from st0 have c: "c = Some (next_id s)"
    by (simp add: handleDownload_start_Some[OF r])
  with st0 have st: "handleDownload_start s = (s1, Some (next_id s))" by simp
  note at = handleDownload_start_attached[OF a r st]
  have run: "handleDownload env s = handleDownload_finish env (next_id s) s1"
    by (simp add: handleDownload_def st)
  have fin: "fst (handleDownload env s) = Inr ()" "body (snd (handleDownload env s)) = body s"
    unfolding run handleDownload_finish_attached[OF at(3) at(2)]
    by (simp_all split: sum.split)
  from c at(2,3) run fin show ?thesis by blast
qed

theorem clone_removed_on_every_exit_witness:
  "allocated (mounted (\<lambda>_. Element ''div'' [] Map.empty []) 2 (Some 1) [0]) \<and>
   previewRef (mounted (\<lambda>_. Element ''div'' [] Map.empty []) 2 (Some 1) [0]) = Some 1 \<and>
   snd (handleDownload_start (mounted (\<lambda>_. Element ''div'' [] Map.empty []) 2 (Some 1) [0]))
     = Some 2 \<and>
   body (fst (handleDownload_start (mounted (\<lambda>_. Element ''div'' [] Map.empty []) 2 (Some 1) [0])))
     = [0, 2] \<and>
   body (snd (handleDownload
       \<lparr>html2canvas = (\<lambda>_. Inl (Rejected ''timeout'')), getContext = True,
        toDataURL = Inr ''data:,''\<rparr>
       (mounted (\<lambda>_. Element ''div'' [] Map.empty []) 2 (Some 1) [0]))) = [0]"
proof -
  let ?s = "mounted (\<lambda>_. Element ''div'' [] Map.empty []) 2 (Some 1) [0]"
  let ?env = "\<lparr>html2canvas = (\<lambda>_. Inl (Rejected ''timeout'')), getContext = True,
        toDataURL = Inr ''data:,''\<rparr>"
  have a: "allocated ?s" and r: "previewRef ?s = Some 1"
    by (simp_all add: mounted_def allocated_def)
  have st: "handleDownload_start ?s = (fst (handleDownload_start ?s), snd (handleDownload_start ?s))"
    by simp
  note t = clone_removed_on_every_exit[OF a r st, of ?env]
  from t have 1: "snd (handleDownload_start ?s) = Some (next_id ?s)"
    by (elim conjE)
  from t have 2: "body (fst (handleDownload_start ?s)) = body ?s @ [next_id ?s]"
    by (elim conjE)
  from t have 3: "body (snd (handleDownload ?env ?s)) = body ?s"
    by (elim conjE)
  have n: "next_id ?s = 2" "body ?s = [0]"
    by (simp_all add: mounted_def)
  show ?thesis
    using a r 1 2 3 unfolding n by simp
qed

text \<open>
  Claim C6. When the rasterization of the clone is rejected, or \<open>getContext\<close> returns
  no context, the export shows the alert that the image could not be generated, resets
  the busy flag, leaves the body without the clone, and triggers no download.
\<close>

theorem export_failure_is_reported:
  "allocated s \<Longrightarrow> previewRef s = Some r \<Longrightarrow> handleDownload_start s = (s1, Some c) \<Longrightarrow>
   isl (html2canvas env (heap s1 c)) \<or> \<not> getContext env \<Longrightarrow>
     alerts (snd (handleDownload env s)) =
       alerts s @ [''An error occurred while generating the image. Please check the console.''] \<and>
     \<not> isDownloading (snd (handleDownload env s)) \<and>
     body (snd (handleDownload env s)) = body s \<and>
     downloads (snd (handleDownload env s)) = downloads s \<and>
     fst (handleDownload env s) = Inr ()"
proof -
  assume a: "allocated s" and r: "previewRef s = Some r"
    and st: "handleDownload_start s = (s1, Some c)"
    and f: "isl (html2canvas env (heap s1 c)) \<or> \<not> getContext env"
  note at = handleDownload_start_attached[OF a r st]
  obtain e where e: "export_image env (heap s1 c) = Inl e"
    using export_image_fails[OF f] by (cases "export_image env (heap s1 c)") simp_all
  have run: "handleDownload env s = handleDownload_finish env c s1"
    by (simp add: handleDownload_def st)
  show ?thesis
    unfolding run handleDownload_finish_attached[OF at(3) at(2)] e
    by (simp add: at)
qed

theorem export_failure_is_reported_witness:
  "allocated (mounted (\<lambda>_. Element ''div'' [] Map.empty []) 2 (Some 1) [0]) \<and>
   previewRef (mounted (\<lambda>_. Element ''div'' [] Map.empty []) 2 (Some 1) [0]) = Some 1 \<and>
   snd (handleDownload_start (mounted (\<lambda>_. Element ''div'' [] Map.empty []) 2 (Some 1) [0]))
     = Some 2 \<and>
   isl (html2canvas
       \<lparr>html2canvas = (\<lambda>_. Inl (Rejected ''timeout'')), getContext = True,
        toDataURL = Inr ''data:,''\<rparr>
       (heap (fst (handleDownload_start
          (mounted (\<lambda>_. Element ''div'' [] Map.empty []) 2 (Some 1) [0]))) 2)) \<and>
   alerts (snd (handleDownload
       \<lparr>html2canvas = (\<lambda>_. Inl (Rejected ''timeout'')), getContext = True,
        toDataURL = Inr ''data:,''\<rparr>
       (mounted (\<lambda>_. Element ''div'' [] Map.empty []) 2 (Some 1) [0])))
     = [''An error occurred while generating the image. Please check the console.''] \<and>
   \<not> isDownloading (snd (handleDownload
       \<lparr>html2canvas = (\<lambda>_. Inl (Rejected ''timeout'')), getContext = True,
        toDataURL = Inr ''data:,''\<rparr>
       (mounted (\<lambda>_. Element ''div'' [] Map.empty []) 2 (Some 1) [0]))) \<and>
   body (snd (handleDownload
       \<lparr>html2canvas = (\<lambda>_. Inl (Rejected ''timeout'')), getContext = True,
        toDataURL = Inr ''data:,''\<rparr>
       (mounted (\<lambda>_. Element ''div'' [] Map.empty []) 2 (Some 1) [0]))) = [0] \<and>
   downloads (snd (handleDownload
       \<lparr>html2canvas = (\<lambda>_. Inl (Rejected ''timeout'')), getContext = True,
        toDataURL = Inr ''data:,''\<rparr>
       (mounted (\<lambda>_. Element ''div'' [] Map.empty []) 2 (Some 1) [0]))) = []"
proof -
  have st: "handleDownload_start (mounted (\<lambda>_. Element ''div'' [] Map.empty []) 2 (Some 1) [0])
    = (fst (handleDownload_start (mounted (\<lambda>_. Element ''div'' [] Map.empty []) 2 (Some 1) [0])),
       Some 2)"
    by (simp add: mounted_def handleDownload_start_Some)
  show ?thesis
    using export_failure_is_reported
      [of "mounted (\<lambda>_. Element ''div'' [] Map.empty []) 2 (Some 1) [0]" 1 _ 2
        "\<lparr>html2canvas = (\<lambda>_. Inl (Rejected ''timeout'')), getContext = True,
          toDataURL = Inr ''data:,''\<rparr>", OF _ _ st]
    by (simp add: mounted_def allocated_def handleDownload_start_Some)
qed

text \<open>
  Claim C7. With no preview behind the ref, \<open>handleDownload\<close> returns at once and the
  state is untouched: no clone, no busy flag, no alert; so is a click on the button.
\<close>

theorem missing_surface_is_noop:
  "previewRef s = None \<Longrightarrow>
     handleDownload_start s = (s, None) \<and> handleDownload env s = (Inr (), s) \<and>
     dispatch Click (s, ts) = (s, ts)"
  by (simp add: handleDownload_def handleDownload_start_None)

theorem missing_surface_is_noop_witness:
  "previewRef (mounted (\<lambda>_. Text ''x'') 1 None [0]) = None \<and>
   handleDownload
       \<lparr>html2canvas = (\<lambda>_. Inr \<lparr>width = 1200, height = 1284\<rparr>), getContext = True,
        toDataURL = Inr ''data:,''\<rparr>
       (mounted (\<lambda>_. Text ''x'') 1 None [0])
     = (Inr (), mounted (\<lambda>_. Text ''x'') 1 None [0]) \<and>
   dispatch Click (mounted (\<lambda>_. Text ''x'') 1 None [0], [])
     = (mounted (\<lambda>_. Text ''x'') 1 None [0], [])"
  using missing_surface_is_noop
    [of "mounted (\<lambda>_. Text ''x'') 1 None [0]"
      "\<lparr>html2canvas = (\<lambda>_. Inr \<lparr>width = 1200, height = 1284\<rparr>), getContext = True,
        toDataURL = Inr ''data:,''\<rparr>" "[]"]
  by (simp add: mounted_def)

text \<open>
  Claim C9. The node of the clone has the tag, the attributes and the children of the
  preview, and its inline style is that of the preview except for five properties:
  \<open>position: absolute\<close>, \<open>top: 0\<close> and \<open>left: -9999px\<close> (off screen),
  \<open>transform: none\<close>, and \<open>width: 600px\<close>. The preview's own node is not modified, and
  the rest of the export depends on the rasterizer only through what it answers for
  this clone.
\<close>

theorem capture_clone_overrides:
  "previewRef s = Some r \<Longrightarrow> r < next_id s \<Longrightarrow> heap s r = Element t a st cs \<Longrightarrow>
   handleDownload_start s = (s1, c) \<Longrightarrow>
     c = Some (next_id s) \<and>
     heap s1 (next_id s) = Element t a
       (st(''position'' \<mapsto> ''absolute'', ''top'' \<mapsto> ''0'', ''left'' \<mapsto> ''-9999px'',
           ''transform'' \<mapsto> ''none'', ''width'' \<mapsto> ''600px'')) cs \<and>
     heap s1 r = heap s r \<and>
     handleDownload env s = handleDownload_finish env (next_id s) s1 \<and>
     (\<forall>env'. html2canvas env' (heap s1 (next_id s)) = html2canvas env (heap s1 (next_id s)) \<and>
             getContext env' = getContext env \<and> toDataURL env' = toDataURL env
             \<longrightarrow> handleDownload_finish env' (next_id s) s1
                = handleDownload_finish env (next_id s) s1)"
proof -
  assume r: "previewRef s = Some r" and lt: "r < next_id s"
    and el: "heap s r = Element t a st cs" and st: "handleDownload_start s = (s1, c)"
  from st have c: "c = Some (next_id s)"
    by (simp add: handleDownload_start_Some[OF r])
  have h: "heap s1 (next_id s) = Element t a
          (st(''position'' \<mapsto> ''absolute'', ''top'' \<mapsto> ''0'', ''left'' \<mapsto> ''-9999px'',
              ''transform'' \<mapsto> ''none'', ''width'' \<mapsto> ''600px'')) cs"
    using st by (auto simp: handleDownload_start_Some[OF r] el)
  have u: "heap s1 r = heap s r"
    using st lt by (auto simp: handleDownload_start_Some[OF r])
  have run: "handleDownload env s = handleDownload_finish env (next_id s) s1"
    by (simp add: handleDownload_def st c)
  have dep: "handleDownload_finish env' (next_id s) s1 = handleDownload_finish env (next_id s) s1"
    if "html2canvas env' (heap s1 (next_id s)) = html2canvas env (heap s1 (next_id s)) \<and>
        getContext env' = getContext env \<and> toDataURL env' = toDataURL env" for env'
  proof -
    have "export_image env' (heap s1 (next_id s)) = export_image env (heap s1 (next_id s))"
      using that by (simp add: export_image_def Let_def split: sum.split)
    then show ?thesis
      unfolding handleDownload_finish_def by simp
  qed
  from c h u run dep show ?thesis by blast
qed

theorem capture_clone_overrides_witness:
  "previewRef (mounted (\<lambda>_. Element ''div'' [(''class'', ''receipt'')]
       [''color'' \<mapsto> ''white'', ''width'' \<mapsto> ''100%''] [Text ''HBL'']) 2 (Some 1) [0]) = Some 1 \<and>
   1 < next_id (mounted (\<lambda>_. Element ''div'' [(''class'', ''receipt'')]
       [''color'' \<mapsto> ''white'', ''width'' \<mapsto> ''100%''] [Text ''HBL'']) 2 (Some 1) [0]) \<and>
   heap (fst (handleDownload_start (mounted (\<lambda>_. Element ''div'' [(''class'', ''receipt'')]
       [''color'' \<mapsto> ''white'', ''width'' \<mapsto> ''100%''] [Text ''HBL'']) 2 (Some 1) [0]))) 2
     = Element ''div'' [(''class'', ''receipt'')]
         [''color'' \<mapsto> ''white'', ''position'' \<mapsto> ''absolute'', ''top'' \<mapsto> ''0'',
          ''left'' \<mapsto> ''-9999px'', ''transform'' \<mapsto> ''none'', ''width'' \<mapsto> ''600px'']
         [Text ''HBL''] \<and>
   heap (fst (handleDownload_start (mounted (\<lambda>_. Element ''div'' [(''class'', ''receipt'')]
       [''color'' \<mapsto> ''white'', ''width'' \<mapsto> ''100%''] [Text ''HBL'']) 2 (Some 1) [0]))) 1
     = Element ''div'' [(''class'', ''receipt'')]
         [''color'' \<mapsto> ''white'', ''width'' \<mapsto> ''100%''] [Text ''HBL'']"
  using capture_clone_overrides
    [of "mounted (\<lambda>_. Element ''div'' [(''class'', ''receipt'')]
       [''color'' \<mapsto> ''white'', ''width'' \<mapsto> ''100%''] [Text ''HBL'']) 2 (Some 1) [0]" 1
      "''div''" "[(''class'', ''receipt'')]"
      "[''color'' \<mapsto> ''white'', ''width'' \<mapsto> ''100%'']" "[Text ''HBL'']"
      "fst (handleDownload_start (mounted (\<lambda>_. Element ''div'' [(''class'', ''receipt'')]
       [''color'' \<mapsto> ''white'', ''width'' \<mapsto> ''100%''] [Text ''HBL'']) 2 (Some 1) [0]))"
      "snd (handleDownload_start (mounted (\<lambda>_. Element ''div'' [(''class'', ''receipt'')]
       [''color'' \<mapsto> ''white'', ''width'' \<mapsto> ''100%''] [Text ''HBL'']) 2 (Some 1) [0]))"]
  by (simp add: mounted_def fun_upd_twist)

section \<open>The event loop: exports in flight\<close>

text \<open>\<open>handleDownload\<close> does not read the flag, and starts whether or not it is up.\<close>

lemma handleDownload_start_reads_no_flag:
  "previewRef s = Some r \<Longrightarrow> snd (handleDownload_start s) = Some (next_id s)"
  by (simp add: handleDownload_start_Some)










section \<open>The output image and its file name\<close>

text \<open>The export of a raster of 1200 by 1284 pixels, the capture of a clone 600 by 642
  CSS pixels at the scale 2: the target height is \<open>840 / (1200 / 1284)\<close>, which is 898.8
  up to the rounding of the two divisions.\<close>

lemma export_image_1200_1284:
  assumes "html2canvas env n = Inr \<lparr>width = 1200, height = 1284\<rparr>" "getContext env"
    "toDataURL env = Inr url"
  shows "export_image env n =
    Inr \<lparr>filename = ''hbl-confirmation-840x899.png'', href = url,
         image = \<lparr>width = 840, height = 898\<rparr>\<rparr>"
proof -
  have r: "number_div (of_unsigned_long 1200) (of_unsigned_long 1284)
      = Fin (8417943228729899 / 9007199254740992)"
    using binary64_normal[of "- 1" "1200 / 1284" 8417943228729899]
    by (simp add: pow2_def of_unsigned_long_def)
  have h: "number_div (Fin 840) (Fin (8417943228729899 / 9007199254740992))
      = Fin (3952964204180275 / 4398046511104)"
    using binary64_normal[of 9 "840 / (8417943228729899 / 9007199254740992)" 7905928408360550]
    by (simp add: pow2_def)
  have w: "canvas_dimension 300 (Fin 840) = 840"
    by code_simp
  have t: "canvas_dimension 150 (Fin (3952964204180275 / 4398046511104)) = 898"
    by code_simp
  have nw: "NumberToString (Fin 840) = ''840''"
    by code_simp
  have nh: "NumberToString (Math_round (Fin (3952964204180275 / 4398046511104))) = ''899''"
    by code_simp
  show ?thesis
    unfolding export_image_def assms(1,3) Let_def sum.case canvas.simps r h w t nw nh
    using assms(2) by simp
qed

lemma export_image_width:
  "export_image env n = Inr d \<Longrightarrow> width (image d) = 840"
proof -
  have w: "canvas_dimension 300 (Fin 840) = 840"
    by code_simp
  show "export_image env n = Inr d \<Longrightarrow> width (image d) = 840"
    by (auto simp: export_image_def Let_def w split: sum.splits if_splits)
qed

text \<open>
  Claim C1, evaluated where it fails. For a raster of width 1200 and height 1284 the
  canvas of the output image is 840 pixels wide and 898 pixels high: the height assigned
  is the unrounded 898.8, which the canvas truncates, whereas
  \<open>round(840 * 1284 / 1200)\<close> is 899.
\<close>

theorem output_height_is_truncated:
  "map_sum id image
     (export_image
        \<lparr>html2canvas = (\<lambda>_. Inr \<lparr>width = 1200, height = 1284\<rparr>), getContext = True,
         toDataURL = Inr ''data:image/png''\<rparr>
        (Element ''div'' [] Map.empty []))
     = Inr \<lparr>width = 840, height = 898\<rparr> \<and>
   round (840 * 1284 / 1200 :: rat) = 899"
proof -
  have "round (840 * 1284 / 1200 :: rat) = 899"
    unfolding round_def by (rule floor_unique) simp_all
  then show ?thesis
    by (simp add: export_image_1200_1284)
qed

text \<open>
  Claim C4, evaluated where it fails. For the same raster the file is named
  \<open>hbl-confirmation-840x899.png\<close>, from the rounded target height, and the image it
  holds is 840 by 898 pixels.
\<close>

theorem filename_differs_from_image:
  "map_sum id (\<lambda>d. (filename d, width (image d), height (image d)))
     (export_image
        \<lparr>html2canvas = (\<lambda>_. Inr \<lparr>width = 1200, height = 1284\<rparr>), getContext = True,
         toDataURL = Inr ''data:image/png''\<rparr>
        (Element ''div'' [] Map.empty []))
     = Inr (''hbl-confirmation-840x899.png'', 840, 898)"
  by (simp add: export_image_1200_1284)

end
